theory Spec2Isabelle
  imports
    Complex_Main
    "HOL-Library.Multiset"
    "HOL-Library.Char_ord"
    "HOL-Library.List_Lexorder"
    "HOL-Library.Product_Lexorder"
begin

section \<open>Personal Finance Tracker: the data model\<close>

text \<open>
  The program keeps its ledger in a pandas DataFrame \<open>self.df\<close> with the columns
  \<open>Date\<close>, \<open>Amount\<close>, \<open>Category\<close>, \<open>Description\<close> and writes it to a CSV file after
  every successful \<open>add_expense\<close>. The embedding follows the class
  \<open>PersonalFinanceTracker\<close> method by method.

  Modelling decisions, all visible in the definitions below:
  \<^item> A Python float is a \<open>pyfloat\<close>: a finite value or one of \<open>inf\<close>, \<open>-inf\<close>, \<open>nan\<close>.
    Arithmetic on finite values is that of binary64: the exact result, rounded to the
    nearest representable number (ties to even), \<open>inf\<close> on overflow. The sign of a zero
    is not kept.
  \<^item> A frame carries the dtype of its \<open>Amount\<close> and \<open>Description\<close> columns, because the
    program casts every new row to the dtypes of \<open>self.df\<close> and pandas sums a column
    by its dtype. A frame created by the program has \<open>object\<close> columns; a frame read
    from a file has the dtypes \<open>read_csv\<close> inferred (\<open>float64\<close> or \<open>int64\<close> amounts;
    descriptions that are all empty or all numbers come back as numbers). The \<open>Date\<close>
    column is \<open>datetime64[ns]\<close> without time zone, its cells timestamps or \<open>NaT\<close>; the
    \<open>Category\<close> column holds strings. Files whose \<open>Category\<close> or \<open>Date\<close> column reads
    otherwise are outside the model.
  \<^item> \<open>float\<close>, \<open>pd.to_datetime\<close>, \<open>datetime.now\<close> and the conversions of a string to a
    number are not code of the program. Their argument is given by what they do with
    it (\<open>amount_arg\<close>, \<open>date_arg\<close>, \<open>description_arg\<close>), and the clock reading is a
    parameter.
  \<^item> \<open>groupby(...).sum()\<close> orders its groups by key, skips \<open>nan\<close> and adds the values of
    a group in row order: with compensated (Kahan) summation on a \<open>float64\<close> column,
    with plain float addition on an \<open>object\<close> column, with 64-bit integer addition on
    an \<open>int64\<close> column.
  \<^item> \<open>sort_values(..., ascending=False)\<close> is called with pandas' default
    \<open>kind='quicksort'\<close>, which is not stable and whose order of equal keys differs
    with the dtype and the machine. Its result is modelled by what the call
    guarantees: a rearrangement of the rows that is descending in the key, \<open>nan\<close>
    last. Operations that sort are relations between the tracker and a result the
    call may return.
  \<^item> Every method returns the tracker it leaves behind next to its result, so that an
    assignment to \<open>self.df\<close> is visible. \<open>data_file\<close> is the frame last written to the
    file, or the frame read from it at start.
\<close>

subsection \<open>Python floats\<close>

datatype pyfloat = Fin rat | PosInf | NegInf | NaN

text \<open>The number of binary digits of a positive integer.\<close>

function bitlen :: "int \<Rightarrow> int" where
  "bitlen n = (if n \<le> 0 then 0 else 1 + bitlen (n div 2))"
  by pat_completeness auto
termination
  by (relation "measure nat") auto

definition pow2 :: "int \<Rightarrow> rat" where
  "pow2 e = (if 0 \<le> e then 2 ^ nat e else 1 / 2 ^ nat (- e))"

text \<open>The exponent of a positive number: the largest \<open>e\<close> with \<open>2 ^ e \<le> x\<close>.\<close>

definition ilog2 :: "rat \<Rightarrow> int" where
  "ilog2 x = (if 1 \<le> x then bitlen \<lfloor>x\<rfloor> - 1 else - bitlen (\<lceil>1 / x\<rceil> - 1))"

definition round_half_even :: "rat \<Rightarrow> int" where
  "round_half_even r =
     (let f = \<lfloor>r\<rfloor>; d = r - of_int f
      in if d < 1 / 2 then f else if 1 / 2 < d then f + 1 else if even f then f else f + 1)"

text \<open>
  Rounding to binary64: 53 significant bits, the smallest spacing \<open>2 ^ -1074\<close>, overflow
  to infinity from \<open>2 ^ 1024\<close> on.
\<close>

definition round64 :: "rat \<Rightarrow> pyfloat" where
  "round64 x =
     (if x = 0 then Fin 0
      else let q = max (ilog2 \<bar>x\<bar> - 52) (- 1074);
               r = of_int (round_half_even (x / pow2 q)) * pow2 q
           in if pow2 1024 \<le> \<bar>r\<bar> then (if 0 < x then PosInf else NegInf) else Fin r)"

definition representable :: "rat \<Rightarrow> bool" where
  "representable x \<longleftrightarrow> round64 x = Fin x"

fun fneg :: "pyfloat \<Rightarrow> pyfloat" where
  "fneg (Fin a) = Fin (- a)"
| "fneg PosInf = NegInf"
| "fneg NegInf = PosInf"
| "fneg NaN = NaN"

fun fadd :: "pyfloat \<Rightarrow> pyfloat \<Rightarrow> pyfloat" where
  "fadd NaN _ = NaN"
| "fadd _ NaN = NaN"
| "fadd PosInf NegInf = NaN"
| "fadd NegInf PosInf = NaN"
| "fadd PosInf _ = PosInf"
| "fadd _ PosInf = PosInf"
| "fadd NegInf _ = NegInf"
| "fadd _ NegInf = NegInf"
| "fadd (Fin a) (Fin b) = round64 (a + b)"

definition fsub :: "pyfloat \<Rightarrow> pyfloat \<Rightarrow> pyfloat" where
  "fsub a b = fadd a (fneg b)"

text \<open>The comparison \<open>a <= b\<close> of two floats; every comparison with \<open>nan\<close> is false.\<close>

fun fle :: "pyfloat \<Rightarrow> pyfloat \<Rightarrow> bool" where
  "fle NaN _ = False"
| "fle _ NaN = False"
| "fle NegInf _ = True"
| "fle _ PosInf = True"
| "fle (Fin a) (Fin b) = (a \<le> b)"
| "fle _ _ = False"

fun isfinite :: "pyfloat \<Rightarrow> bool" where
  "isfinite (Fin _) = True"
| "isfinite _ = False"

fun fin_val :: "pyfloat \<Rightarrow> rat" where
  "fin_val (Fin a) = a"
| "fin_val _ = 0"

subsection \<open>Column dtypes and the sums of a group\<close>

datatype dtype = Float64 | Int64 | Object

text \<open>
  The cells of an \<open>int64\<close> column are whole numbers; their sum wraps around at 64 bits.
  \<open>trunc\<close> is the conversion of a float to an integer, towards zero.
\<close>

definition wrap64 :: "int \<Rightarrow> int" where
  "wrap64 n = (n + 2 ^ 63) mod 2 ^ 64 - 2 ^ 63"

definition trunc :: "rat \<Rightarrow> int" where
  "trunc x = (if 0 \<le> x then \<lfloor>x\<rfloor> else \<lceil>x\<rceil>)"

definition iadd :: "pyfloat \<Rightarrow> pyfloat \<Rightarrow> pyfloat" where
  "iadd a b = Fin (of_int (wrap64 (trunc (fin_val a) + trunc (fin_val b))))"

text \<open>
  What pandas keeps for a group while it runs over the rows (\<open>group_sum\<close> of
  \<open>pandas/_libs/groupby.pyx\<close>): the sum so far, the compensation of the Kahan
  summation and the number of values seen. A \<open>nan\<close> value is skipped. On a \<open>float64\<close>
  column the steps are \<open>y = val - compensation\<close>, \<open>t = sumx + y\<close>,
  \<open>compensation = t - sumx - y\<close> (reset to 0 when it is \<open>nan\<close>), \<open>sumx = t\<close>; on an
  \<open>object\<close> column the first value is taken as it is and the others are added to it.
\<close>

type_synonym acc = "pyfloat \<times> pyfloat \<times> nat"

definition acc0 :: acc where
  "acc0 = (Fin 0, Fin 0, 0)"

fun group_step :: "dtype \<Rightarrow> acc \<Rightarrow> pyfloat \<Rightarrow> acc" where
  "group_step dt (sumx, compensation, nobs) val =
     (if val = NaN then (sumx, compensation, nobs)
      else case dt of
        Object \<Rightarrow> ((if nobs = 0 then val else fadd sumx val), compensation, Suc nobs)
      | Int64 \<Rightarrow> (iadd sumx val, compensation, Suc nobs)
      | Float64 \<Rightarrow>
          (let y = fsub val compensation;
               t = fadd sumx y;
               c = fsub (fsub t sumx) y
           in (t, (if c = NaN then Fin 0 else c), Suc nobs)))"

definition group_sum :: "dtype \<Rightarrow> pyfloat list \<Rightarrow> pyfloat" where
  "group_sum dt xs = fst (foldl (group_step dt) acc0 xs)"

subsection \<open>Timestamps and the month key\<close>

record timestamp =
  year :: nat
  month :: nat
  day :: nat

definition digit :: "nat \<Rightarrow> char" where
  "digit n = ''0123456789'' ! (n mod 10)"

definition pad4 :: "nat \<Rightarrow> string" where
  "pad4 n = [digit (n div 1000), digit (n div 100), digit (n div 10), digit n]"

definition pad2 :: "nat \<Rightarrow> string" where
  "pad2 n = [digit (n div 10), digit n]"

text \<open>\<open>strftime('%Y-%m')\<close> on a timestamp pandas can hold (years 1677 to 2262).\<close>

definition strftime_Ym :: "timestamp \<Rightarrow> string" where
  "strftime_Ym d = pad4 (year d) @ ''-'' @ pad2 (month d)"

definition valid_timestamp :: "timestamp \<Rightarrow> bool" where
  "valid_timestamp d \<longleftrightarrow> 1677 \<le> year d \<and> year d \<le> 2262 \<and> 1 \<le> month d \<and> month d \<le> 12"

subsection \<open>The DataFrame and the tracker\<close>

text \<open>
  A cell of the \<open>Description\<close> column: a string in an \<open>object\<close> column, a float (\<open>nan\<close>
  for an empty cell) or an integer where \<open>read_csv\<close> gave the column a numeric dtype.
  A cell of the \<open>Date\<close> column is a timestamp or \<open>NaT\<close> (\<open>None\<close>).
\<close>

datatype desc_cell = Text string | DFloat pyfloat | DInt int

record expense =
  Date :: "timestamp option"
  Amount :: pyfloat
  Category :: string
  Description :: desc_cell

text \<open>
  \<open>Month\<close> is the derived column that \<open>self.df['Month'] = ...\<close> creates: \<open>None\<close> while the
  frame has no such column, otherwise one entry per row, \<open>None\<close> for a \<open>NaN\<close> cell.
\<close>

record frame =
  rows :: "expense list"
  Month :: "string option list option"
  Amount_dtype :: dtype
  Description_dtype :: dtype

record tracker =
  df :: frame
  data_file :: "frame option"

definition categories :: "string list" where
  "categories = [''Food'', ''Transportation'', ''Housing'', ''Entertainment'',
                 ''Utilities'', ''Healthcare'', ''Shopping'', ''Education'', ''Other'']"

text \<open>\<open>pd.DataFrame(columns=[...])\<close>: no rows, every column of dtype \<open>object\<close>.\<close>

definition empty_frame :: frame where
  "empty_frame = \<lparr>rows = [], Month = None, Amount_dtype = Object, Description_dtype = Object\<rparr>"

definition save_data :: "tracker \<Rightarrow> tracker" where
  "save_data s = s\<lparr>data_file := Some (df s)\<rparr>"

text \<open>
  \<open>__init__\<close>: the argument is the frame that \<open>read_csv\<close> and \<open>to_datetime\<close> make of
  \<open>finance_data.csv\<close> (\<open>None\<close> when the file does not exist). An existing file is read
  as it is; nothing in it is validated.
\<close>

definition init :: "frame option \<Rightarrow> tracker" where
  "init file =
     (case file of
        Some f \<Rightarrow> \<lparr>df = f, data_file = Some f\<rparr>
      | None \<Rightarrow> save_data \<lparr>df = empty_frame, data_file = None\<rparr>)"

subsection \<open>add_expense\<close>

datatype py_error = ValueError | TypeError | OverflowError | ZeroDivisionError

datatype 'a outcome = Returned 'a | Raised py_error

text \<open>
  The \<open>amount\<close> argument by what \<open>float(amount)\<close> does with it: a number (also
  \<open>float('inf')\<close> and \<open>float('nan')\<close>), a string that is no number (\<open>ValueError\<close>), an
  object that cannot be converted at all (\<open>TypeError\<close>), or an integer too large for a
  float (\<open>OverflowError\<close>).
\<close>

datatype amount_arg = Numeric pyfloat | BadString | BadType | TooLarge

fun py_float :: "amount_arg \<Rightarrow> py_error + pyfloat" where
  "py_float (Numeric a) = Inr a"
| "py_float BadString = Inl ValueError"
| "py_float BadType = Inl TypeError"
| "py_float TooLarge = Inl OverflowError"

text \<open>
  The \<open>date\<close> argument: \<open>None\<close>, a value \<open>pd.to_datetime\<close> parses to a timestamp without
  or with a time zone, a value it turns into \<open>NaT\<close> without raising (the empty string,
  \<open>'NaT'\<close>), or one it rejects.
\<close>

datatype date_arg = DateNone | DateParsed timestamp | DateParsedTz timestamp | DateNaT | DateInvalid

datatype new_date = Naive "timestamp option" | Aware timestamp

text \<open>
  The \<open>description\<close> argument: a string, with what \<open>float\<close> and \<open>int\<close> make of it
  (\<open>None\<close> where they raise \<open>ValueError\<close>); the cast to a numeric \<open>Description\<close> column
  applies them.
\<close>

record description_arg =
  text_of :: string
  as_float :: "pyfloat option"
  as_int :: "int option"

fun join :: "string \<Rightarrow> string list \<Rightarrow> string" where
  "join sep [] = []"
| "join sep [x] = x"
| "join sep (x # y # ys) = x @ sep @ join sep (y # ys)"

text \<open>
  The first lines of \<open>add_expense\<close>: the date used for the new row and the warning
  printed when \<open>pd.to_datetime\<close> rejected the argument.
\<close>

fun resolve_date :: "timestamp \<Rightarrow> date_arg \<Rightarrow> new_date \<times> string list" where
  "resolve_date now DateNone = (Naive (Some now), [])"
| "resolve_date now (DateParsed d) = (Naive (Some d), [])"
| "resolve_date now (DateParsedTz d) = (Aware d, [])"
| "resolve_date now DateNaT = (Naive None, [])"
| "resolve_date now DateInvalid = (Naive (Some now), [''Invalid date format. Using current date.''])"

text \<open>
  The loop \<open>new_expense[col] = new_expense[col].astype(self.df[col].dtype)\<close>, column by
  column in the order of \<open>self.df.columns\<close>. A date with a time zone cannot be cast to
  the zoneless \<open>Date\<close> column (\<open>TypeError\<close>). A float cast to \<open>int64\<close> loses its
  fraction; \<open>inf\<close> and \<open>nan\<close> cannot be cast (\<open>ValueError\<close>), and a value beyond 64 bits
  becomes the smallest integer. A string cast to a numeric column is converted, or
  the cast raises \<open>ValueError\<close>. The cast of the category, a string, to the \<open>object\<close>
  column \<open>Category\<close> changes nothing.
\<close>

fun cast_date :: "new_date \<Rightarrow> py_error + timestamp option" where
  "cast_date (Naive d) = Inr d"
| "cast_date (Aware d) = Inl TypeError"

definition to_int64 :: "rat \<Rightarrow> int" where
  "to_int64 x = (if - (2 ^ 63) \<le> trunc x \<and> trunc x < 2 ^ 63 then trunc x else - (2 ^ 63))"

fun cast_amount :: "dtype \<Rightarrow> pyfloat \<Rightarrow> py_error + pyfloat" where
  "cast_amount Float64 a = Inr a"
| "cast_amount Object a = Inr a"
| "cast_amount Int64 a =
     (if isfinite a then Inr (Fin (of_int (to_int64 (fin_val a)))) else Inl ValueError)"

fun cast_description :: "dtype \<Rightarrow> description_arg \<Rightarrow> py_error + desc_cell" where
  "cast_description Object d = Inr (Text (text_of d))"
| "cast_description Float64 d =
     (case as_float d of None \<Rightarrow> Inl ValueError | Some x \<Rightarrow> Inr (DFloat x))"
| "cast_description Int64 d =
     (case as_int d of
        None \<Rightarrow> Inl ValueError
      | Some n \<Rightarrow> if - (2 ^ 63) \<le> n \<and> n < 2 ^ 63 then Inr (DInt n) else Inl OverflowError)"

definition concat_row :: "frame \<Rightarrow> expense \<Rightarrow> frame" where
  "concat_row f new =
     f\<lparr>rows := rows f @ [new], Month := map_option (\<lambda>ms. ms @ [None]) (Month f)\<rparr>"

text \<open>
  \<open>add_expense(amount, category, description, date)\<close>, with the reading \<open>now\<close> of the
  clock. The result is the lines printed, what the call returned or raised, and the
  tracker afterwards.
\<close>

definition add_expense ::
  "timestamp \<Rightarrow> amount_arg \<Rightarrow> string \<Rightarrow> description_arg \<Rightarrow> date_arg \<Rightarrow> tracker
     \<Rightarrow> (string list \<times> bool outcome) \<times> tracker" where
  "add_expense now amount category description date s =
     (let (date', out) = resolve_date now date
      in if category \<notin> set categories
         then ((out @ [''Invalid category. Please choose from: '' @ join '', '' categories],
                Returned False), s)
         else (case py_float amount of
                 Inl e \<Rightarrow> ((out, Raised e), s)
               | Inr a \<Rightarrow>
                   (case cast_date date' of
                      Inl e \<Rightarrow> ((out, Raised e), s)
                    | Inr d \<Rightarrow>
                        (case cast_amount (Amount_dtype (df s)) a of
                           Inl e \<Rightarrow> ((out, Raised e), s)
                         | Inr a' \<Rightarrow>
                             (case cast_description (Description_dtype (df s)) description of
                                Inl e \<Rightarrow> ((out, Raised e), s)
                              | Inr t \<Rightarrow>
                                  let new_expense = \<lparr>Date = d, Amount = a',
                                        Category = category, Description = t\<rparr>;
                                      s' = s\<lparr>df := concat_row (df s) new_expense\<rparr>
                                  in ((out @ [''Expense added successfully!''], Returned True),
                                      save_data s'))))))"

text \<open>A call of \<open>add_expense\<close> with its arguments, and a run of such calls.\<close>

record add_call =
  call_now :: timestamp
  call_amount :: amount_arg
  call_category :: string
  call_description :: description_arg
  call_date :: date_arg

definition do_call :: "add_call \<Rightarrow> tracker \<Rightarrow> tracker" where
  "do_call c s =
     snd (add_expense (call_now c) (call_amount c) (call_category c)
            (call_description c) (call_date c) s)"

definition run_calls :: "add_call list \<Rightarrow> tracker \<Rightarrow> tracker" where
  "run_calls cs s = foldl (\<lambda>t c. do_call c t) s cs"

subsection \<open>The aggregations\<close>

text \<open>
  \<open>groupby(key)['Amount'].sum()\<close>: one group per key, the groups ordered by key, rows
  whose key is \<open>NaN\<close> dropped, each group summed as its rows come.
\<close>

fun add_to_group ::
  "dtype \<Rightarrow> 'k::linorder \<Rightarrow> pyfloat \<Rightarrow> ('k \<times> acc) list \<Rightarrow> ('k \<times> acc) list" where
  "add_to_group dt k v [] = [(k, group_step dt acc0 v)]"
| "add_to_group dt k v ((k', a) # gs) =
     (if k = k' then (k', group_step dt a v) # gs
      else if k < k' then (k, group_step dt acc0 v) # (k', a) # gs
      else (k', a) # add_to_group dt k v gs)"

definition group_accs :: "dtype \<Rightarrow> ('k::linorder option \<times> pyfloat) list \<Rightarrow> ('k \<times> acc) list" where
  "group_accs dt kas =
     foldl (\<lambda>gs (k, v). case k of None \<Rightarrow> gs | Some k' \<Rightarrow> add_to_group dt k' v gs) [] kas"

definition groupby_sum ::
  "dtype \<Rightarrow> ('k::linorder option \<times> pyfloat) list \<Rightarrow> ('k \<times> pyfloat) list" where
  "groupby_sum dt kas = map (\<lambda>(k, a). (k, fst a)) (group_accs dt kas)"

text \<open>
  \<open>sort_values(ascending=False)\<close> on the values \<open>key\<close>: \<open>ys\<close> is a result the call may
  return for \<open>xs\<close>.
\<close>

definition before_desc :: "pyfloat \<Rightarrow> pyfloat \<Rightarrow> bool" where
  "before_desc a b \<longleftrightarrow> b = NaN \<or> (a \<noteq> NaN \<and> fle b a)"

definition sort_values_desc :: "('a \<Rightarrow> pyfloat) \<Rightarrow> 'a list \<Rightarrow> 'a list \<Rightarrow> bool" where
  "sort_values_desc key xs ys \<longleftrightarrow>
     mset ys = mset xs \<and> sorted_wrt (\<lambda>a b. before_desc (key a) (key b)) ys"

definition get_expenses_by_category ::
  "tracker \<Rightarrow> (string \<times> pyfloat) list \<times> tracker \<Rightarrow> bool" where
  "get_expenses_by_category s res \<longleftrightarrow>
     sort_values_desc snd
       (groupby_sum (Amount_dtype (df s))
          (map (\<lambda>r. (Some (Category r), Amount r)) (rows (df s)))) (fst res) \<and>
     snd res = s"

text \<open>\<open>self.df['Month'] = self.df['Date'].dt.strftime('%Y-%m')\<close>; \<open>NaT\<close> gives \<open>NaN\<close>.\<close>

definition with_month :: "frame \<Rightarrow> frame" where
  "with_month f = f\<lparr>Month := Some (map (\<lambda>r. map_option strftime_Ym (Date r)) (rows f))\<rparr>"

definition month_column :: "frame \<Rightarrow> string option list" where
  "month_column f = (case Month f of None \<Rightarrow> [] | Some ms \<Rightarrow> ms)"

definition get_expenses_by_month :: "tracker \<Rightarrow> (string \<times> pyfloat) list \<times> tracker" where
  "get_expenses_by_month s =
     (let f = with_month (df s);
          monthly_expenses =
            groupby_sum (Amount_dtype f) (zip (month_column f) (map Amount (rows f)))
      in (monthly_expenses, s\<lparr>df := f\<rparr>))"

text \<open>
  \<open>pivot_table(index='Month', columns='Category', values='Amount', aggfunc='sum')\<close>
  sums every (month, category) group, drops the groups whose sum is \<open>NaN\<close>, and lays
  the rest out as a grid with a row per month and a column per category, both in key
  order. When the grid has a cell without a group, the sums of an \<open>int64\<close> column are
  converted to floats. \<open>fillna(0)\<close> then puts 0 into every cell without a group.
\<close>

definition fillna0 :: "pyfloat option \<Rightarrow> pyfloat" where
  "fillna0 c = (case c of None \<Rightarrow> Fin 0 | Some v \<Rightarrow> if v = NaN then Fin 0 else v)"

definition to_float :: "pyfloat \<Rightarrow> pyfloat" where
  "to_float v = (case v of Fin a \<Rightarrow> round64 a | _ \<Rightarrow> v)"

definition pivot_table_sum ::
  "dtype \<Rightarrow> (string option \<times> expense) list \<Rightarrow> (string \<times> (string \<times> pyfloat) list) list" where
  "pivot_table_sum dt mrs =
     (let agged = groupby_sum dt
            (map (\<lambda>(m, r). (map_option (\<lambda>m'. (m', Category r)) m, Amount r)) mrs);
          agged' = filter (\<lambda>(k, v). v \<noteq> NaN) agged;
          index = sort (remdups (map (fst \<circ> fst) agged'));
          columns = sort (remdups (map (snd \<circ> fst) agged'));
          promoted = (dt = Int64 \<and>
            list_ex (\<lambda>m. list_ex (\<lambda>c. map_of agged' (m, c) = None) columns) index);
          cell = (\<lambda>m c. fillna0 (map_option (\<lambda>v. if promoted then to_float v else v)
                                   (map_of agged' (m, c))))
      in map (\<lambda>m. (m, map (\<lambda>c. (c, cell m c)) columns)) index)"

definition get_category_expenses_by_month ::
  "tracker \<Rightarrow> (string \<times> (string \<times> pyfloat) list) list \<times> tracker" where
  "get_category_expenses_by_month s =
     (let f = with_month (df s)
      in (pivot_table_sum (Amount_dtype f) (zip (month_column f) (rows f)), s\<lparr>df := f\<rparr>))"

subsection \<open>generate_monthly_report\<close>

text \<open>
  What the report computes: the rows of the month, the breakdown by category and the
  top five expenses. The text rendering and the report file are not modelled, and of
  the total \<open>month_data['Amount'].sum()\<close> only what decides the course of the call: on
  an \<open>object\<close> column the total and the category sums are Python floats, so the
  percentage \<open>amount / total_spent\<close> raises \<open>ZeroDivisionError\<close> when the total is
  zero; numpy numbers divide without raising. On an \<open>object\<close> column the total is the
  sum from left to right, \<open>nan\<close> counted as 0.

  \<open>generate_monthly_report now month s sorted_md res\<close> holds when the call may end
  with \<open>res\<close>, \<open>sorted_md\<close> being the frame that
  \<open>month_data.sort_values('Amount', ascending=False)\<close> returned. \<open>Returned None\<close> is
  the early return on a month without rows.
\<close>

definition report_month :: "timestamp \<Rightarrow> string option \<Rightarrow> string" where
  "report_month now month_arg = (case month_arg of None \<Rightarrow> strftime_Ym now | Some m \<Rightarrow> m)"

record report =
  category_spending :: "(string \<times> pyfloat) list"
  top_expenses :: "expense list"

definition month_data :: "frame \<Rightarrow> string \<Rightarrow> expense list" where
  "month_data f m = map snd (filter (\<lambda>(k, r). k = Some m) (zip (month_column f) (rows f)))"

definition object_total :: "pyfloat list \<Rightarrow> pyfloat" where
  "object_total xs =
     (case map (\<lambda>v. if v = NaN then Fin 0 else v) xs of
        [] \<Rightarrow> Fin 0
      | y # ys \<Rightarrow> foldl fadd y ys)"

definition generate_monthly_report ::
  "timestamp \<Rightarrow> string option \<Rightarrow> tracker \<Rightarrow> expense list
     \<Rightarrow> report option outcome \<times> tracker \<Rightarrow> bool" where
  "generate_monthly_report now month_arg s sorted_md res \<longleftrightarrow>
     (let m = report_month now month_arg;
          f = with_month (df s);
          md = month_data f m
      in snd res = s\<lparr>df := f\<rparr> \<and>
         (if length md = 0 then fst res = Returned None
          else if Amount_dtype f = Object \<and> object_total (map Amount md) = Fin 0
          then fst res = Raised ZeroDivisionError
          else (case fst res of
                  Returned (Some rep) \<Rightarrow>
                    sort_values_desc snd
                      (groupby_sum (Amount_dtype f)
                         (map (\<lambda>r. (Some (Category r), Amount r)) md))
                      (category_spending rep) \<and>
                    sort_values_desc Amount md sorted_md \<and>
                    top_expenses rep = take 5 sorted_md
                | _ \<Rightarrow> False)))"

section \<open>Notions of the specification\<close>

text \<open>
  The invariant the specification gives for a ledger: every category belongs to the
  fixed set and every amount is a finite non-negative number.
\<close>

definition ledger_invariant :: "expense list \<Rightarrow> bool" where
  "ledger_invariant xs \<longleftrightarrow>
     list_all (\<lambda>r. Category r \<in> set categories \<and> isfinite (Amount r) \<and> 0 \<le> fin_val (Amount r)) xs"

definition categories_valid :: "expense list \<Rightarrow> bool" where
  "categories_valid xs \<longleftrightarrow> list_all (\<lambda>r. Category r \<in> set categories) xs"

text \<open>The amounts filed under a key, in the order of the list.\<close>

definition key_amounts :: "('k option \<times> pyfloat) list \<Rightarrow> 'k \<Rightarrow> pyfloat list" where
  "key_amounts kas k = map snd (filter (\<lambda>p. fst p = Some k) kas)"

text \<open>
  The transactions of a category, of a month, and of a category in a month, in ledger
  order. A transaction without a date (\<open>NaT\<close>) belongs to no month.
\<close>

definition category_rows :: "expense list \<Rightarrow> string \<Rightarrow> expense list" where
  "category_rows xs c = filter (\<lambda>r. Category r = c) xs"

definition month_rows :: "expense list \<Rightarrow> string \<Rightarrow> expense list" where
  "month_rows xs m = filter (\<lambda>r. map_option strftime_Ym (Date r) = Some m) xs"


text \<open>The exact sum of the amounts of a list of transactions.\<close>

definition exact_total :: "expense list \<Rightarrow> rat" where
  "exact_total xs = sum_list (map (fin_val \<circ> Amount) xs)"

text \<open>
  A list of amounts that pandas adds without rounding: every amount is a finite
  number and every sum of the first amounts of the list is a number of the column's
  dtype (a binary64 number; in an \<open>int64\<close> column a whole number of 64 bits as well).
\<close>

fun adds_exactly :: "dtype \<Rightarrow> rat \<Rightarrow> pyfloat list \<Rightarrow> bool" where
  "adds_exactly dt t [] = True"
| "adds_exactly dt t (x # xs) =
     (isfinite x \<and> representable (fin_val x) \<and> representable (t + fin_val x) \<and>
      (dt = Int64 \<longrightarrow> of_int (trunc (fin_val x)) = fin_val x \<and>
         wrap64 (trunc (t + fin_val x)) = trunc (t + fin_val x)) \<and>
      adds_exactly dt (t + fin_val x) xs)"


text \<open>
  Floats in the order \<open>sort_values\<close> uses, as a linear order: \<open>nan\<close> below everything,
  so that it comes last in a descending arrangement.
\<close>

definition rank :: "pyfloat \<Rightarrow> nat \<times> rat" where
  "rank a = (case a of NaN \<Rightarrow> (0, 0) | NegInf \<Rightarrow> (1, 0) | Fin x \<Rightarrow> (2, x) | PosInf \<Rightarrow> (3, 0))"

text \<open>
  The descending arrangement that keeps rows of equal key in their original order,
  and the top five of the specification: ``sorted by amount descending, first 5 (ties
  broken by original ledger order)''.
\<close>

definition stable_sort_desc :: "('a \<Rightarrow> pyfloat) \<Rightarrow> 'a list \<Rightarrow> 'a list" where
  "stable_sort_desc key xs = rev (sort_key (rank \<circ> key) (rev xs))"

definition top5_spec :: "expense list \<Rightarrow> expense list" where
  "top5_spec md = take 5 (stable_sort_desc Amount md)"

text \<open>
  The example ledger of the specification, as a tracker started on a file that holds
  it, and a description as the menu passes it.
\<close>

definition jan5 :: timestamp where
  "jan5 = \<lparr>year = 2024, month = 1, day = 5\<rparr>"

definition jan10 :: timestamp where
  "jan10 = \<lparr>year = 2024, month = 1, day = 10\<rparr>"

definition feb1 :: timestamp where
  "feb1 = \<lparr>year = 2024, month = 2, day = 1\<rparr>"

definition example_rows :: "expense list" where
  "example_rows =
     [\<lparr>Date = Some jan5, Amount = Fin 100, Category = ''Food'', Description = Text ''lunch''\<rparr>,
      \<lparr>Date = Some jan10, Amount = Fin 50, Category = ''Food'', Description = Text ''snacks''\<rparr>,
      \<lparr>Date = Some feb1, Amount = Fin 200, Category = ''Housing'', Description = Text ''rent''\<rparr>]"

definition loaded :: "expense list \<Rightarrow> frame" where
  "loaded xs = \<lparr>rows = xs, Month = None, Amount_dtype = Float64, Description_dtype = Object\<rparr>"

definition example_tracker :: tracker where
  "example_tracker = init (Some (loaded example_rows))"

definition today :: timestamp where
  "today = \<lparr>year = 2024, month = 3, day = 15\<rparr>"

definition plain :: "string \<Rightarrow> description_arg" where
  "plain t = \<lparr>text_of = t, as_float = None, as_int = None\<rparr>"

text \<open>
  A ledger read from a file with two expenses of 10 and two of 20 in one month, the
  ledger that one expense with an empty description leaves in the file, as it reads
  at the next start, and a ledger with a large and a small amount.
\<close>

definition tie_rows :: "expense list" where
  "tie_rows =
     [\<lparr>Date = Some jan5, Amount = Fin 10, Category = ''Food'', Description = Text ''a''\<rparr>,
      \<lparr>Date = Some jan5, Amount = Fin 10, Category = ''Food'', Description = Text ''b''\<rparr>,
      \<lparr>Date = Some jan5, Amount = Fin 20, Category = ''Food'', Description = Text ''c''\<rparr>,
      \<lparr>Date = Some jan5, Amount = Fin 20, Category = ''Food'', Description = Text ''d''\<rparr>]"

definition tie_tracker :: tracker where
  "tie_tracker = init (Some (loaded tie_rows))"


definition large_rows :: "expense list" where
  "large_rows =
     [\<lparr>Date = Some jan5, Amount = Fin 10000000000000000, Category = ''Food'',
        Description = Text ''car''\<rparr>,
      \<lparr>Date = Some jan10, Amount = Fin 1, Category = ''Food'', Description = Text ''gum''\<rparr>]"

definition large_tracker :: tracker where
  "large_tracker = init (Some (loaded large_rows))"

section \<open>The transaction store\<close>

subsection \<open>Rejected categories\<close>

text \<open>
  Claim C3. A candidate whose category is not one of the nine categories of the
  tracker (``Vacation'', say) is refused: \<open>add_expense\<close> prints the list of valid
  categories and returns \<open>False\<close>, whatever the amount, the description and the date
  are, and the tracker is the one it was called on: no row is added and the data file
  is not written.
\<close>

theorem add_expense_invalid_category:
  "category \<notin> set categories \<Longrightarrow>
   add_expense now amount category description date s =
     ((snd (resolve_date now date) @
         [''Invalid category. Please choose from: '' @ join '', '' categories],
       Returned False), s)"
  by (simp add: add_expense_def split: prod.splits)

theorem add_expense_invalid_category_witness:
  "''Vacation'' \<notin> set categories \<and>
   add_expense today (Numeric (Fin 1200)) ''Vacation'' (plain ''flights'') DateNone
       example_tracker =
     (([''Invalid category. Please choose from: Food, Transportation, Housing, Entertainment, Utilities, Healthcare, Shopping, Education, Other''],
       Returned False), example_tracker)"
proof -
  have h: "''Vacation'' \<notin> set categories"
    by (simp add: categories_def)
  show ?thesis
    using add_expense_invalid_category
      [OF h, of today "Numeric (Fin 1200)" "plain ''flights''" DateNone example_tracker] h
    by (simp add: categories_def)
qed

subsection \<open>Accepted candidates\<close>




subsection \<open>Amounts that are no finite number\<close>

text \<open>
  Claim C6, as the specification states it, fails: \<open>float\<close> accepts \<open>inf\<close> and \<open>nan\<close>,
  and \<open>add_expense\<close> has no test on the number it gets. On a fresh tracker the
  amount \<open>inf\<close> is appended and written to the file, and the call returns \<open>True\<close>.
\<close>

theorem add_expense_nonfinite_counterexample:
  "add_expense today (Numeric PosInf) ''Food'' (plain ''lunch'') DateNone (init None) =
     (([''Expense added successfully!''], Returned True),
      \<lparr>df = \<lparr>rows = [\<lparr>Date = Some today, Amount = PosInf, Category = ''Food'',
                        Description = Text ''lunch''\<rparr>], Month = None,
              Amount_dtype = Object, Description_dtype = Object\<rparr>,
       data_file = Some \<lparr>rows = [\<lparr>Date = Some today, Amount = PosInf, Category = ''Food'',
                        Description = Text ''lunch''\<rparr>], Month = None,
              Amount_dtype = Object, Description_dtype = Object\<rparr>\<rparr>)"
  by (simp add: add_expense_def init_def save_data_def empty_frame_def concat_row_def
        categories_def plain_def Let_def)

text \<open>
  Claim C6, amended. When the category is one of the nine and \<open>float(amount)\<close>
  raises (the amount is a string that is no number, or an object \<open>float\<close> cannot
  convert), \<open>add_expense\<close> ends with that exception, passed on to its caller, and the
  tracker is the one it was called on: nothing is appended and the data file is not
  written.
\<close>

theorem add_expense_unconvertible:
  "category \<in> set categories \<Longrightarrow> py_float amount = Inl e \<Longrightarrow>
   add_expense now amount category description date s =
     ((snd (resolve_date now date), Raised e), s)"
  by (simp add: add_expense_def split: prod.splits)

theorem add_expense_unconvertible_witness:
  "''Food'' \<in> set categories \<and> py_float BadString = Inl ValueError \<and>
   add_expense today BadString ''Food'' (plain ''lunch'') DateNone example_tracker =
     (([], Raised ValueError), example_tracker)"
proof -
  have h: "''Food'' \<in> set categories"
    by (simp add: categories_def)
  have p: "py_float BadString = Inl ValueError"
    by simp
  from add_expense_unconvertible [OF h p, of today "plain ''lunch''" DateNone example_tracker] h p
  show ?thesis by simp
qed

subsection \<open>The ledger invariant\<close>

text \<open>
  Claim C5, as the specification states it, fails: \<open>add_expense\<close> does not look at
  the sign of the amount. Started without a data file, one call with the amount
  \<open>-5\<close> leaves a ledger that breaks the invariant.
\<close>

theorem reachable_invariant_counterexample:
  "\<not> ledger_invariant (rows (df (run_calls
        [\<lparr>call_now = today, call_amount = Numeric (Fin (-5)), call_category = ''Food'',
          call_description = plain ''refund'', call_date = DateNone\<rparr>] (init None))))"
  by (simp add: run_calls_def do_call_def add_expense_def init_def save_data_def
        empty_frame_def concat_row_def categories_def ledger_invariant_def plain_def Let_def)

lemma rows_add_expense:
  "rows (df (snd (add_expense now amount category description date s))) = rows (df s) \<or>
   (category \<in> set categories \<and>
    (\<exists>new. Category new = category \<and>
       rows (df (snd (add_expense now amount category description date s))) =
         rows (df s) @ [new]))"
  by (simp add: add_expense_def save_data_def concat_row_def Let_def
        split: prod.splits sum.splits)

lemma categories_valid_add_expense:
  "categories_valid (rows (df s)) \<Longrightarrow>
   categories_valid (rows (df (snd (add_expense now amount category description date s))))"
  using rows_add_expense [of now amount category description date s]
  by (auto simp: categories_valid_def)

lemma categories_valid_run_calls:
  "categories_valid (rows (df s)) \<Longrightarrow> categories_valid (rows (df (run_calls cs s)))"
  unfolding run_calls_def
  by (induction cs arbitrary: s) (simp_all add: do_call_def categories_valid_add_expense)

text \<open>
  Claim C5, amended. Started without a data file, or on a data file whose categories
  all belong to the nine, the tracker has after any run of \<open>add_expense\<close> calls a
  ledger whose categories all belong to the nine. Nothing is said of the amounts.
\<close>

theorem reachable_categories_valid:
  "(case file of None \<Rightarrow> True | Some f \<Rightarrow> categories_valid (rows f)) \<Longrightarrow>
   categories_valid (rows (df (run_calls cs (init file))))"
  by (rule categories_valid_run_calls)
     (auto simp: init_def save_data_def empty_frame_def categories_valid_def split: option.splits)

theorem reachable_categories_valid_witness:
  "categories_valid
     (rows (df (run_calls
        [\<lparr>call_now = today, call_amount = Numeric (Fin (-5)), call_category = ''Food'',
          call_description = plain ''refund'', call_date = DateNone\<rparr>,
         \<lparr>call_now = today, call_amount = Numeric NaN, call_category = ''Vacation'',
          call_description = plain ''flights'', call_date = DateNone\<rparr>]
        (init None)))) \<and>
   rows (df (run_calls
        [\<lparr>call_now = today, call_amount = Numeric (Fin (-5)), call_category = ''Food'',
          call_description = plain ''refund'', call_date = DateNone\<rparr>,
         \<lparr>call_now = today, call_amount = Numeric NaN, call_category = ''Vacation'',
          call_description = plain ''flights'', call_date = DateNone\<rparr>]
        (init None))) =
     [\<lparr>Date = Some today, Amount = Fin (-5), Category = ''Food'',
       Description = Text ''refund''\<rparr>]"
proof -
  have "rows (df (run_calls
        [\<lparr>call_now = today, call_amount = Numeric (Fin (-5)), call_category = ''Food'',
          call_description = plain ''refund'', call_date = DateNone\<rparr>,
         \<lparr>call_now = today, call_amount = Numeric NaN, call_category = ''Vacation'',
          call_description = plain ''flights'', call_date = DateNone\<rparr>]
        (init None))) =
     [\<lparr>Date = Some today, Amount = Fin (-5), Category = ''Food'',
       Description = Text ''refund''\<rparr>]"
    by (simp add: run_calls_def do_call_def add_expense_def init_def save_data_def
          empty_frame_def concat_row_def categories_def plain_def Let_def)
  with reachable_categories_valid [of None
      "[\<lparr>call_now = today, call_amount = Numeric (Fin (-5)), call_category = ''Food'',
          call_description = plain ''refund'', call_date = DateNone\<rparr>,
         \<lparr>call_now = today, call_amount = Numeric NaN, call_category = ''Vacation'',
          call_description = plain ''flights'', call_date = DateNone\<rparr>]"]
  show ?thesis by simp
qed

section \<open>The aggregator\<close>

subsection \<open>Arithmetic on the amounts of the examples\<close>

lemma round64_100: "round64 100 = Fin 100"
  by (simp add: round64_def ilog2_def round_half_even_def pow2_def Let_def)

lemma round64_150: "round64 150 = Fin 150"
  by (simp add: round64_def ilog2_def round_half_even_def pow2_def Let_def)

lemma round64_200: "round64 200 = Fin 200"
  by (simp add: round64_def ilog2_def round_half_even_def pow2_def Let_def)

lemma round64_50: "round64 50 = Fin 50"
  by (simp add: round64_def ilog2_def round_half_even_def pow2_def Let_def)

lemma round64_0: "round64 0 = Fin 0"
  by (simp add: round64_def)

lemmas round64_examples = round64_0 round64_50 round64_100 round64_150 round64_200

lemma example_tracker_rows: "rows (df example_tracker) = example_rows"
  by (simp add: example_tracker_def init_def loaded_def)

lemma example_tracker_dtype: "Amount_dtype (df example_tracker) = Float64"
  by (simp add: example_tracker_def init_def loaded_def)

lemma example_groupby_category:
  "groupby_sum Float64 (map (\<lambda>r. (Some (Category r), Amount r)) example_rows) =
     [(''Food'', Fin 150), (''Housing'', Fin 200)]"
  by (simp add: example_rows_def groupby_sum_def group_accs_def acc0_def fsub_def Let_def
        round64_examples)

subsection \<open>What the aggregations leave behind\<close>

text \<open>
  Claim C2, as the specification states it, fails: \<open>get_expenses_by_month\<close> assigns
  the column \<open>Month\<close> to \<open>self.df\<close>, so the frame of the example tracker is another
  one after the call.
\<close>

theorem get_expenses_by_month_mutates_counterexample:
  "snd (get_expenses_by_month example_tracker) \<noteq> example_tracker"
  by (simp add: get_expenses_by_month_def example_tracker_def init_def with_month_def
        loaded_def Let_def)

text \<open>
  Claim C2, amended. \<open>get_expenses_by_category\<close> leaves the tracker as it is.
  \<open>get_expenses_by_month\<close> and \<open>get_category_expenses_by_month\<close> leave the rows (the
  transactions, their four fields and their order), the dtypes of the columns and the
  data file as they are, and set the column \<open>Month\<close> of the frame to the month key of
  every row (\<open>NaN\<close> for a row without a date).
\<close>

theorem aggregations_keep_rows:
  "(get_expenses_by_category s res \<longrightarrow> snd res = s) \<and>
   rows (df (snd (get_expenses_by_month s))) = rows (df s) \<and>
   data_file (snd (get_expenses_by_month s)) = data_file s \<and>
   Month (df (snd (get_expenses_by_month s))) =
     Some (map (\<lambda>r. map_option strftime_Ym (Date r)) (rows (df s))) \<and>
   rows (df (snd (get_category_expenses_by_month s))) = rows (df s) \<and>
   data_file (snd (get_category_expenses_by_month s)) = data_file s \<and>
   Month (df (snd (get_category_expenses_by_month s))) =
     Some (map (\<lambda>r. map_option strftime_Ym (Date r)) (rows (df s))) \<and>
   Amount_dtype (df (snd (get_expenses_by_month s))) = Amount_dtype (df s) \<and>
   Description_dtype (df (snd (get_expenses_by_month s))) = Description_dtype (df s) \<and>
   Amount_dtype (df (snd (get_category_expenses_by_month s))) = Amount_dtype (df s) \<and>
   Description_dtype (df (snd (get_category_expenses_by_month s))) =
     Description_dtype (df s)"
  by (simp add: get_expenses_by_category_def get_expenses_by_month_def
        get_category_expenses_by_month_def with_month_def Let_def)

theorem aggregations_keep_rows_witness:
  "get_expenses_by_category example_tracker
     ([(''Housing'', Fin 200), (''Food'', Fin 150)], example_tracker) \<and>
   rows (df (snd (get_expenses_by_month example_tracker))) = example_rows \<and>
   Month (df (snd (get_expenses_by_month example_tracker))) =
     Some [Some ''2024-01'', Some ''2024-01'', Some ''2024-02'']"
proof -
  note t = aggregations_keep_rows [of example_tracker
      "([(''Housing'', Fin 200), (''Food'', Fin 150)], example_tracker)"]
  have c: "get_expenses_by_category example_tracker
     ([(''Housing'', Fin 200), (''Food'', Fin 150)], example_tracker)"
    by (simp add: get_expenses_by_category_def example_tracker_rows example_tracker_dtype
          example_groupby_category sort_values_desc_def before_desc_def)
  have m: "map (\<lambda>r. map_option strftime_Ym (Date r)) example_rows =
      [Some ''2024-01'', Some ''2024-01'', Some ''2024-02'']"
    by (simp add: example_rows_def jan5_def jan10_def feb1_def strftime_Ym_def pad4_def
          pad2_def digit_def)
  from t c example_tracker_rows m show ?thesis by simp
qed

subsection \<open>The groups of a \<open>groupby\<close>\<close>

lemma keys_add_to_group: "fst ` set (add_to_group dt k v gs) = insert k (fst ` set gs)"
  by (induction gs) force+

lemma sorted_add_to_group:
  "sorted_wrt (<) (map fst gs) \<Longrightarrow> sorted_wrt (<) (map fst (add_to_group dt k v gs))"
proof (induction gs)
  case Nil
  then show ?case by simp
next
  case (Cons g gs)
  obtain k' t where g: "g = (k', t)" by (cases g)
  have ks: "fst ` set (add_to_group dt k v gs) = insert k (fst ` set gs)"
    by (rule keys_add_to_group)
  from Cons g ks show ?case
    by auto
qed

lemma map_of_None_less:
  "sorted_wrt (<) (k # map fst gs) \<Longrightarrow> map_of gs (k::'k::linorder) = None"
  by (induction gs) auto

lemma map_of_add_to_group:
  "sorted_wrt (<) (map fst gs) \<Longrightarrow>
   map_of (add_to_group dt k v gs) =
     (map_of gs)(k \<mapsto> group_step dt (case map_of gs k of None \<Rightarrow> acc0 | Some a \<Rightarrow> a) v)"
proof (induction gs)
  case Nil
  then show ?case by simp
next
  case (Cons g gs)
  obtain k' t where g: "g = (k', t)" by (cases g)
  show ?case
  proof (cases "k < k'")
    case True
    with Cons.prems g have "map_of gs k = None"
      by (intro map_of_None_less) auto
    with True g show ?thesis by (auto simp: fun_eq_iff)
  next
    case False
    with Cons g show ?thesis by (auto simp: fun_eq_iff)
  qed
qed

lemma group_accs_Nil: "group_accs dt [] = []"
  by (simp add: group_accs_def)

lemma group_accs_snoc_Some:
  "group_accs dt (kas @ [(Some k, v)]) = add_to_group dt k v (group_accs dt kas)"
  by (simp add: group_accs_def)

lemma group_accs_snoc_None: "group_accs dt (kas @ [(None, v)]) = group_accs dt kas"
  by (simp add: group_accs_def)

lemma sorted_group_accs: "sorted_wrt (<) (map fst (group_accs dt kas))"
proof (induction kas rule: rev_induct)
  case Nil
  then show ?case by (simp add: group_accs_Nil)
next
  case (snoc x kas)
  obtain k a where x: "x = (k, a)" by (cases x)
  show ?case
    using snoc unfolding x
    by (cases k) (simp_all add: group_accs_snoc_Some group_accs_snoc_None sorted_add_to_group)
qed

lemma keys_group_accs: "fst ` set (group_accs dt kas) = {k. Some k \<in> fst ` set kas}"
proof (induction kas rule: rev_induct)
  case Nil
  then show ?case by (simp add: group_accs_Nil)
next
  case (snoc x kas)
  obtain k a where x: "x = (k, a)" by (cases x)
  show ?case
  proof (cases k)
    case None
    with snoc x show ?thesis by (auto simp: group_accs_snoc_None)
  next
    case (Some k')
    with snoc x show ?thesis
      by (auto simp: group_accs_snoc_Some keys_add_to_group)
  qed
qed

lemma key_amounts_absent: "Some k \<notin> fst ` set kas \<Longrightarrow> key_amounts kas k = []"
  by (force simp: key_amounts_def filter_empty_conv)

lemma key_amounts_snoc:
  "key_amounts (kas @ [(k', a)]) k = key_amounts kas k @ (if k' = Some k then [a] else [])"
  by (simp add: key_amounts_def)

lemma map_of_group_accs:
  "map_of (group_accs dt kas) k =
     (if Some k \<in> fst ` set kas
      then Some (foldl (group_step dt) acc0 (key_amounts kas k)) else None)"
proof (induction kas arbitrary: k rule: rev_induct)
  case Nil
  then show ?case by (simp add: group_accs_Nil)
next
  case (snoc x kas)
  obtain k' a where x: "x = (k', a)" by (cases x)
  show ?case
  proof (cases k')
    case None
    then show ?thesis
      unfolding x by (simp add: group_accs_snoc_None snoc.IH key_amounts_snoc image_Un)
  next
    case (Some j)
    have "group_step dt (case map_of (group_accs dt kas) j of None \<Rightarrow> acc0 | Some t \<Rightarrow> t) a =
        foldl (group_step dt) acc0 (key_amounts kas j @ [a])"
      using key_amounts_absent [of j kas]
      by (simp add: snoc.IH)
    then have upd: "map_of (group_accs dt (kas @ [(Some j, a)])) =
        (map_of (group_accs dt kas))(j \<mapsto> foldl (group_step dt) acc0 (key_amounts kas j @ [a]))"
      by (simp add: group_accs_snoc_Some map_of_add_to_group [OF sorted_group_accs])
    show ?thesis
      unfolding x Some upd
      by (auto simp: snoc.IH key_amounts_snoc)
  qed
qed

lemma keys_of_groupby_sum: "map fst (groupby_sum dt kas) = map fst (group_accs dt kas)"
  by (simp add: groupby_sum_def comp_def case_prod_unfold)

lemma sorted_groupby_sum: "sorted_wrt (<) (map fst (groupby_sum dt kas))"
  by (simp only: keys_of_groupby_sum sorted_group_accs)

lemma keys_groupby_sum: "fst ` set (groupby_sum dt kas) = {k. Some k \<in> fst ` set kas}"
proof -
  have "fst ` set (groupby_sum dt kas) = set (map fst (groupby_sum dt kas))"
    by simp
  also have "\<dots> = fst ` set (group_accs dt kas)"
    by (simp only: keys_of_groupby_sum) simp
  finally show ?thesis
    by (simp only: keys_group_accs)
qed

lemma map_of_groupby_sum:
  "map_of (groupby_sum dt kas) k =
     (if Some k \<in> fst ` set kas then Some (group_sum dt (key_amounts kas k)) else None)"
proof -
  have "map_of (groupby_sum dt kas) k = map_option fst (map_of (group_accs dt kas) k)"
    unfolding groupby_sum_def by (simp add: map_of_map)
  then show ?thesis
    by (simp add: map_of_group_accs group_sum_def)
qed

text \<open>Sums that are formed without rounding.\<close>

lemma trunc_of_int: "trunc (of_int n) = n"
  by (simp add: trunc_def)

lemma group_step_exact:
  assumes "isfinite x" and "representable (fin_val x)" and "representable (t + fin_val x)"
    and "dt = Int64 \<longrightarrow> of_int (trunc (fin_val x)) = fin_val x \<and>
           wrap64 (trunc (t + fin_val x)) = trunc (t + fin_val x)"
    and "n = 0 \<longrightarrow> t = 0" and "dt = Int64 \<longrightarrow> of_int (trunc t) = t"
  shows "group_step dt (Fin t, Fin 0, n) x = (Fin (t + fin_val x), Fin 0, Suc n)"
proof -
  from assms(1) obtain v where x: "x = Fin v" by (cases x) simp_all
  from assms(2,3) x have rv: "round64 v = Fin v" and rt: "round64 (t + v) = Fin (t + v)"
    by (simp_all add: representable_def)
  have r0: "round64 0 = Fin 0"
    by (simp add: round64_def)
  show ?thesis
  proof (cases dt)
    case Float64
    then show ?thesis
      by (simp add: x fsub_def rv rt r0 Let_def)
  next
    case Int64
    with assms(4,6) x have iv: "of_int (trunc v) = v" and it: "of_int (trunc t) = t"
      and w: "wrap64 (trunc (t + v)) = trunc (t + v)"
      by simp_all
    have "of_int (trunc t + trunc v) = t + v"
      by (simp add: iv it)
    then have s: "trunc t + trunc v = trunc (t + v)"
      by (metis trunc_of_int)
    have "of_int (trunc (t + v)) = t + v"
      by (metis iv it of_int_add trunc_of_int)
    with Int64 show ?thesis
      by (simp add: x iadd_def s w)
  next
    case Object
    with assms(5) show ?thesis
      by (cases "n = 0") (simp_all add: x rt)
  qed
qed

lemma foldl_group_step_exact:
  "adds_exactly dt t xs \<Longrightarrow> (n = 0 \<longrightarrow> t = 0) \<Longrightarrow> (dt = Int64 \<longrightarrow> of_int (trunc t) = t) \<Longrightarrow>
   fst (foldl (group_step dt) (Fin t, Fin 0, n) xs) = Fin (t + sum_list (map fin_val xs))"
proof (induction xs arbitrary: t n)
  case Nil
  then show ?case by simp
next
  case (Cons x xs)
  from Cons.prems(1) have a: "isfinite x" "representable (fin_val x)"
    "representable (t + fin_val x)"
    "dt = Int64 \<longrightarrow> of_int (trunc (fin_val x)) = fin_val x \<and>
       wrap64 (trunc (t + fin_val x)) = trunc (t + fin_val x)"
    and rest: "adds_exactly dt (t + fin_val x) xs"
    by simp_all
  have st: "group_step dt (Fin t, Fin 0, n) x = (Fin (t + fin_val x), Fin 0, Suc n)"
    by (rule group_step_exact [OF a Cons.prems(2,3)])
  have i: "dt = Int64 \<longrightarrow> of_int (trunc (t + fin_val x)) = t + fin_val x"
  proof
    assume d: "dt = Int64"
    with a(4) Cons.prems(3) have "of_int (trunc (fin_val x)) = fin_val x" "of_int (trunc t) = t"
      by simp_all
    then show "of_int (trunc (t + fin_val x)) = t + fin_val x"
      by (metis of_int_add trunc_of_int)
  qed
  have "fst (foldl (group_step dt) (Fin (t + fin_val x), Fin 0, Suc n) xs) =
      Fin (t + fin_val x + sum_list (map fin_val xs))"
    by (rule Cons.IH [OF rest _ i]) simp
  then show ?case
    by (simp add: st add.assoc del: group_step.simps)
qed

lemma group_sum_exact:
  "adds_exactly dt 0 xs \<Longrightarrow> group_sum dt xs = Fin (sum_list (map fin_val xs))"
  unfolding group_sum_def acc0_def
  using foldl_group_step_exact [of dt 0 xs 0] by (simp add: trunc_def)

lemma group_sum_rows_exact:
  "adds_exactly dt 0 (map Amount xs) \<Longrightarrow> group_sum dt (map Amount xs) = Fin (exact_total xs)"
  by (simp add: group_sum_exact exact_total_def)

text \<open>The order of floats in a descending arrangement.\<close>

lemma before_desc_rank: "before_desc a b \<longleftrightarrow> rank b \<le> rank a"
  by (cases a; cases b) (simp_all add: before_desc_def rank_def)

lemma rank_inj: "rank a = rank b \<Longrightarrow> a = b"
  by (cases a; cases b) (simp_all add: rank_def)

lemma sort_values_desc_stable: "sort_values_desc key xs (stable_sort_desc key xs)"
proof -
  have "sorted (map (rank \<circ> key) (sort_key (rank \<circ> key) (rev xs)))"
    by (rule sorted_sort_key)
  then have "sorted_wrt (\<lambda>a b. rank (key a) \<le> rank (key b)) (sort_key (rank \<circ> key) (rev xs))"
    by (simp add: sorted_map)
  then have "sorted_wrt (\<lambda>a b. before_desc (key a) (key b)) (stable_sort_desc key xs)"
    by (simp add: stable_sort_desc_def sorted_wrt_rev before_desc_rank)
  then show ?thesis
    by (simp add: sort_values_desc_def stable_sort_desc_def)
qed

text \<open>What any descending rearrangement of a grouped sum looks like.\<close>

lemma sorted_grouping_any:
  assumes srt: "sort_values_desc snd (groupby_sum dt kas) res"
  shows "fst ` set res = {k. Some k \<in> fst ` set kas}"
    and "distinct (map fst res)"
    and "Some k \<in> fst ` set kas \<Longrightarrow> map_of res k = Some (group_sum dt (key_amounts kas k))"
    and "sorted_wrt (\<lambda>p q. before_desc (snd p) (snd q)) res"
proof -
  let ?G = "groupby_sum dt kas"
  from srt have ms: "mset res = mset ?G"
    and sw: "sorted_wrt (\<lambda>a b. before_desc (snd a) (snd b)) res"
    by (simp_all add: sort_values_desc_def)
  from sw show "sorted_wrt (\<lambda>p q. before_desc (snd p) (snd q)) res" .
  from ms have st: "set res = set ?G" by (rule mset_eq_setD)
  have dG: "distinct (map fst ?G)"
    using sorted_groupby_sum [of dt kas] by (simp add: strict_sorted_iff)
  from ms have "mset (map fst res) = mset (map fst ?G)" by simp
  with dG show d: "distinct (map fst res)" by (metis mset_eq_imp_distinct_iff)
  from st show "fst ` set res = {k. Some k \<in> fst ` set kas}"
    by (simp add: keys_groupby_sum)
  from d dG st have mo: "map_of res = map_of ?G"
    by (simp add: map_of_inject_set)
  show "map_of res k = Some (group_sum dt (key_amounts kas k))" if "Some k \<in> fst ` set kas"
    using that by (simp add: mo map_of_groupby_sum)
qed

lemma key_amounts_category:
  "key_amounts (map (\<lambda>r. (Some (Category r), Amount r)) xs) c =
     map Amount (category_rows xs c)"
  by (simp add: key_amounts_def category_rows_def filter_map comp_def)

subsection \<open>Totals by category\<close>

lemma round64_1: "round64 1 = Fin 1"
  by (simp add: round64_def ilog2_def round_half_even_def pow2_def Let_def)

lemma round64_minus_1: "round64 (- 1) = Fin (- 1)"
  by (simp add: round64_def ilog2_def round_half_even_def pow2_def Let_def)

lemma round64_large: "round64 10000000000000000 = Fin 10000000000000000"
  by code_simp

lemma round64_large_1: "round64 10000000000000001 = Fin 10000000000000000"
  by code_simp

lemmas round64_large_examples = round64_0 round64_1 round64_minus_1 round64_large round64_large_1

lemma large_tracker_rows: "rows (df large_tracker) = large_rows"
  by (simp add: large_tracker_def init_def loaded_def)

lemma large_tracker_dtype: "Amount_dtype (df large_tracker) = Float64"
  by (simp add: large_tracker_def init_def loaded_def)

lemma large_exact_total: "exact_total large_rows = 10000000000000001"
  by (simp add: exact_total_def large_rows_def)

text \<open>
  Claim C1, as the specification states it, fails: the sums are sums of binary
  floating-point numbers. On the ledger with the amounts \<open>1e16\<close> and \<open>1.0\<close>, both for
  food, \<open>get_expenses_by_category\<close> maps Food to \<open>1e16\<close>, while the sum of the two
  amounts is 10000000000000001.
\<close>

theorem get_expenses_by_category_rounding_counterexample:
  "get_expenses_by_category large_tracker
     ([(''Food'', Fin 10000000000000000)], large_tracker) \<and>
   exact_total (category_rows (rows (df large_tracker)) ''Food'') = 10000000000000001"
proof -
  have g: "groupby_sum Float64 (map (\<lambda>r. (Some (Category r), Amount r)) large_rows) =
      [(''Food'', Fin 10000000000000000)]"
    by (simp add: large_rows_def groupby_sum_def group_accs_def acc0_def fsub_def Let_def
          round64_large_examples)
  have c: "category_rows large_rows ''Food'' = large_rows"
    by (simp add: category_rows_def large_rows_def)
  show ?thesis
    by (simp add: get_expenses_by_category_def large_tracker_rows large_tracker_dtype g c
          large_exact_total sort_values_desc_def)
qed

text \<open>
  Claim C1, amended. \<open>get_expenses_by_category\<close> returns, and whatever it returns has
  one entry for each category that occurs in a transaction and no other entry, maps
  each of these categories to the sum pandas forms of the amounts of its transactions
  in ledger order (\<open>nan\<close> amounts skipped, the additions those of the column's dtype),
  and lists the entries in descending order of these sums, \<open>nan\<close> sums last. A
  category whose amounts add without rounding is mapped to the exact sum of the
  amounts of its transactions. The tracker is left as it is.
\<close>

theorem get_expenses_by_category_correct:
  "(\<exists>res. get_expenses_by_category s res) \<and>
   (\<forall>res. get_expenses_by_category s res \<longrightarrow>
      fst ` set (fst res) = Category ` set (rows (df s)) \<and>
      distinct (map fst (fst res)) \<and>
      (\<forall>c \<in> Category ` set (rows (df s)).
         map_of (fst res) c =
           Some (group_sum (Amount_dtype (df s))
                   (map Amount (category_rows (rows (df s)) c)))) \<and>
      (\<forall>c \<in> Category ` set (rows (df s)).
         adds_exactly (Amount_dtype (df s)) 0 (map Amount (category_rows (rows (df s)) c)) \<longrightarrow>
         map_of (fst res) c = Some (Fin (exact_total (category_rows (rows (df s)) c)))) \<and>
      sorted_wrt (\<lambda>p q. before_desc (snd p) (snd q)) (fst res) \<and>
      snd res = s)"
proof (intro conjI allI impI ballI)
  let ?dt = "Amount_dtype (df s)"
  let ?kas = "map (\<lambda>r. (Some (Category r), Amount r)) (rows (df s))"
  have "get_expenses_by_category s (stable_sort_desc snd (groupby_sum ?dt ?kas), s)"
    by (simp add: get_expenses_by_category_def sort_values_desc_stable)
  then show "\<exists>res. get_expenses_by_category s res" ..
  have keys: "{k. Some k \<in> fst ` set ?kas} = Category ` set (rows (df s))"
    by force
  fix res assume r: "get_expenses_by_category s res"
  then have srt: "sort_values_desc snd (groupby_sum ?dt ?kas) (fst res)"
    by (simp add: get_expenses_by_category_def)
  from r show "snd res = s"
    by (simp add: get_expenses_by_category_def)
  note g = sorted_grouping_any [OF srt]
  from g(1) keys show "fst ` set (fst res) = Category ` set (rows (df s))" by simp
  from g(2) show "distinct (map fst (fst res))" .
  from g(4) show "sorted_wrt (\<lambda>p q. before_desc (snd p) (snd q)) (fst res)" .
  have v: "map_of (fst res) c = Some (group_sum ?dt (map Amount (category_rows (rows (df s)) c)))"
    if "c \<in> Category ` set (rows (df s))" for c
  proof -
    from that keys have "Some c \<in> fst ` set ?kas" by blast
    from g(3) [OF this] show ?thesis
      by (simp add: key_amounts_category)
  qed
  show "map_of (fst res) c = Some (group_sum ?dt (map Amount (category_rows (rows (df s)) c)))"
    if "c \<in> Category ` set (rows (df s))" for c
    using that by (rule v)
  show "map_of (fst res) c = Some (Fin (exact_total (category_rows (rows (df s)) c)))"
    if "c \<in> Category ` set (rows (df s))"
      and "adds_exactly ?dt 0 (map Amount (category_rows (rows (df s)) c))" for c
    using v [OF that(1)] group_sum_rows_exact [OF that(2)] by simp
qed

lemma representable_examples:
  "representable 50" "representable 100" "representable 150" "representable 200"
  by (simp_all add: representable_def round64_examples)

lemma example_by_category:
  "get_expenses_by_category example_tracker
     ([(''Housing'', Fin 200), (''Food'', Fin 150)], example_tracker)"
  by (simp add: get_expenses_by_category_def example_tracker_rows example_tracker_dtype
        example_groupby_category sort_values_desc_def before_desc_def)

lemma example_categories: "Category ` set (rows (df example_tracker)) = {''Food'', ''Housing''}"
  by (auto simp: example_tracker_rows example_rows_def)

lemma example_category_rows:
  "map Amount (category_rows example_rows ''Food'') = [Fin 100, Fin 50]"
  "map Amount (category_rows example_rows ''Housing'') = [Fin 200]"
  by (simp_all add: category_rows_def example_rows_def)

theorem get_expenses_by_category_correct_witness:
  "get_expenses_by_category example_tracker
     ([(''Housing'', Fin 200), (''Food'', Fin 150)], example_tracker) \<and>
   Category ` set (rows (df example_tracker)) = {''Food'', ''Housing''} \<and>
   adds_exactly (Amount_dtype (df example_tracker)) 0
     (map Amount (category_rows (rows (df example_tracker)) ''Food'')) \<and>
   adds_exactly (Amount_dtype (df example_tracker)) 0
     (map Amount (category_rows (rows (df example_tracker)) ''Housing'')) \<and>
   exact_total (category_rows (rows (df example_tracker)) ''Food'') = 150 \<and>
   exact_total (category_rows (rows (df example_tracker)) ''Housing'') = 200 \<and>
   group_sum (Amount_dtype (df example_tracker))
     (map Amount (category_rows (rows (df example_tracker)) ''Food'')) = Fin 150"
proof -
  note t = get_expenses_by_category_correct [of example_tracker, THEN conjunct2, rule_format,
      OF example_by_category]
  have af: "adds_exactly (Amount_dtype (df example_tracker)) 0
     (map Amount (category_rows (rows (df example_tracker)) ''Food''))"
    by (simp add: example_tracker_rows example_tracker_dtype example_category_rows
          representable_examples)
  have ah: "adds_exactly (Amount_dtype (df example_tracker)) 0
     (map Amount (category_rows (rows (df example_tracker)) ''Housing''))"
    by (simp add: example_tracker_rows example_tracker_dtype example_category_rows
          representable_examples)
  have cf: "''Food'' \<in> Category ` set (rows (df example_tracker))"
    and ch: "''Housing'' \<in> Category ` set (rows (df example_tracker))"
    by (simp_all add: example_categories)
  note u = t [THEN conjunct2, THEN conjunct2, THEN conjunct1, rule_format]
  note w = t [THEN conjunct2, THEN conjunct2, THEN conjunct2, THEN conjunct1, rule_format]
  from w [OF cf af] have ef: "exact_total (category_rows (rows (df example_tracker)) ''Food'') = 150"
    by simp
  from w [OF ch ah] have eh: "exact_total (category_rows (rows (df example_tracker)) ''Housing'') = 200"
    by simp
  from u [OF cf] have gf: "group_sum (Amount_dtype (df example_tracker))
     (map Amount (category_rows (rows (df example_tracker)) ''Food'')) = Fin 150"
    by simp
  from example_by_category example_categories af ah ef eh gf show ?thesis
    by simp
qed

subsection \<open>Totals by month\<close>

lemma zip_map_same: "zip (map f xs) (map g xs) = map (\<lambda>x. (f x, g x)) xs"
  by (induction xs) simp_all

lemma month_rows_zip:
  "zip (month_column (with_month f)) (rows (with_month f)) =
     map (\<lambda>r. (map_option strftime_Ym (Date r), r)) (rows f)"
  using zip_map_same [of "\<lambda>r. map_option strftime_Ym (Date r)" "rows f" "\<lambda>r. r"]
  by (simp add: month_column_def with_month_def)

lemma month_amounts_zip:
  "zip (month_column (with_month f)) (map Amount (rows (with_month f))) =
     map (\<lambda>r. (map_option strftime_Ym (Date r), Amount r)) (rows f)"
  by (simp add: month_column_def with_month_def zip_map_same)

lemma month_data_filter: "month_data (with_month f) m = month_rows (rows f) m"
  by (simp add: month_data_def month_rows_zip month_rows_def filter_map comp_def)

lemma key_amounts_month:
  "key_amounts (map (\<lambda>r. (map_option strftime_Ym (Date r), Amount r)) xs) m =
     map Amount (month_rows xs m)"
  by (simp add: key_amounts_def month_rows_def filter_map comp_def)

lemma by_month_groupby:
  "fst (get_expenses_by_month s) =
     groupby_sum (Amount_dtype (df s))
       (map (\<lambda>r. (map_option strftime_Ym (Date r), Amount r)) (rows (df s)))"
proof -
  have "Amount_dtype (with_month (df s)) = Amount_dtype (df s)"
    by (simp add: with_month_def)
  then show ?thesis
    by (simp add: get_expenses_by_month_def Let_def month_amounts_zip)
qed

lemma by_month_keys:
  "fst ` set (fst (get_expenses_by_month s)) =
     {m. Some m \<in> (\<lambda>r. map_option strftime_Ym (Date r)) ` set (rows (df s))}"
proof -
  have "fst ` set (map (\<lambda>r. (map_option strftime_Ym (Date r), Amount r)) (rows (df s))) =
      (\<lambda>r. map_option strftime_Ym (Date r)) ` set (rows (df s))"
    by force
  then show ?thesis
    by (simp only: by_month_groupby keys_groupby_sum)
qed

lemma by_month_value:
  assumes "m \<in> fst ` set (fst (get_expenses_by_month s))"
  shows "map_of (fst (get_expenses_by_month s)) m =
     Some (group_sum (Amount_dtype (df s)) (map Amount (month_rows (rows (df s)) m)))"
proof -
  from assms have "Some m \<in> fst ` set (map (\<lambda>r. (map_option strftime_Ym (Date r), Amount r))
      (rows (df s)))"
    by (simp only: by_month_groupby keys_groupby_sum) simp
  then show ?thesis
    by (simp add: by_month_groupby map_of_groupby_sum key_amounts_month)
qed

lemma of_char_nth_digits: "k < 10 \<Longrightarrow> of_char (''0123456789'' ! k) = (48 + k :: nat)"
proof -
  assume "k < 10"
  then have "k = 0 \<or> k = 1 \<or> k = 2 \<or> k = 3 \<or> k = 4 \<or> k = 5 \<or> k = 6 \<or> k = 7 \<or> k = 8 \<or> k = 9"
    by arith
  then show ?thesis
    by (elim disjE) simp_all
qed

lemma of_char_digit: "of_char (digit n) = (48 + n mod 10 :: nat)"
  by (simp add: digit_def of_char_nth_digits)

lemma digit_less_iff: "digit i < digit j \<longleftrightarrow> i mod 10 < j mod 10"
  by (simp add: less_char_def of_char_digit)

lemma digit_eq_iff: "digit i = digit j \<longleftrightarrow> i mod 10 = j mod 10"
proof
  assume "digit i = digit j"
  then have "(of_char (digit i) :: nat) = of_char (digit j)" by simp
  then show "i mod 10 = j mod 10" by (simp add: of_char_digit)
next
  assume "i mod 10 = j mod 10"
  then show "digit i = digit j" by (simp add: digit_def)
qed

lemma lin_less:
  "r < 10 \<Longrightarrow> s < 10 \<Longrightarrow> (10 * a + r < 10 * b + (s::nat)) = (a < b \<or> a = b \<and> r < s)"
  by (cases a b rule: linorder_cases) auto

lemma lin_eq:
  "r < 10 \<Longrightarrow> s < 10 \<Longrightarrow> (10 * a + r = 10 * b + (s::nat)) = (a = b \<and> r = s)"
  by (cases a b rule: linorder_cases) auto

lemma lex_step:
  "((x::nat) < y \<or> x = y \<and> P) \<longleftrightarrow>
   (x div 10 < y div 10 \<or> x div 10 = y div 10 \<and> (x mod 10 < y mod 10 \<or> x mod 10 = y mod 10 \<and> P))"
proof -
  have x: "x = 10 * (x div 10) + x mod 10" and y: "y = 10 * (y div 10) + y mod 10"
    by simp_all
  have b: "x mod 10 < 10" "y mod 10 < 10"
    by simp_all
  have l: "x < y \<longleftrightarrow> x div 10 < y div 10 \<or> x div 10 = y div 10 \<and> x mod 10 < y mod 10"
    by (subst x, subst y) (rule lin_less [OF b])
  have e: "x = y \<longleftrightarrow> x div 10 = y div 10 \<and> x mod 10 = y mod 10"
    by (subst x, subst y) (rule lin_eq [OF b])
  show ?thesis
    by (simp only: l e) blast
qed

lemma lex4:
  assumes "x < 10000" and "y < 10000"
  shows "((x::nat) < y \<or> x = y \<and> P) \<longleftrightarrow>
   (x div 1000 mod 10 < y div 1000 mod 10 \<or> x div 1000 mod 10 = y div 1000 mod 10 \<and>
     (x div 100 mod 10 < y div 100 mod 10 \<or> x div 100 mod 10 = y div 100 mod 10 \<and>
       (x div 10 mod 10 < y div 10 mod 10 \<or> x div 10 mod 10 = y div 10 mod 10 \<and>
         (x mod 10 < y mod 10 \<or> x mod 10 = y mod 10 \<and> P))))"
proof -
  have d2: "n div 10 div 10 = n div 100" and d3: "n div 100 div 10 = n div 1000" for n :: nat
    by (simp_all add: div_mult2_eq [symmetric])
  from assms have top: "x div 1000 mod 10 = x div 1000" "y div 1000 mod 10 = y div 1000"
    by simp_all
  show ?thesis
    unfolding top
    by (subst lex_step, subst lex_step [of "x div 10"], subst lex_step [of "x div 10 div 10"])
       (simp only: d2 d3)
qed

lemma lex2:
  assumes "x < 100" and "y < 100"
  shows "(x::nat) < y \<longleftrightarrow>
   (x div 10 mod 10 < y div 10 mod 10 \<or> x div 10 mod 10 = y div 10 mod 10 \<and>
         (x mod 10 < y mod 10 \<or> x mod 10 = y mod 10 \<and> False))"
proof -
  from assms have top: "x div 10 mod 10 = x div 10" "y div 10 mod 10 = y div 10"
    by simp_all
  show ?thesis
    unfolding top using lex_step [of x y False] by simp
qed

lemma strftime_Ym_less_iff:
  assumes "year a < 10000" "year b < 10000" "month a < 100" "month b < 100"
  shows "strftime_Ym a < strftime_Ym b \<longleftrightarrow>
     year a < year b \<or> year a = year b \<and> month a < month b"
proof -
  have "strftime_Ym a < strftime_Ym b \<longleftrightarrow>
     year a < year b \<or> year a = year b \<and> pad2 (month a) < pad2 (month b)"
    unfolding strftime_Ym_def pad4_def
    by (simp only: append.simps Cons_less_Cons digit_less_iff digit_eq_iff
          lex4 [OF assms(1,2), symmetric] less_irrefl simp_thms)
  also have "pad2 (month a) < pad2 (month b) \<longleftrightarrow> month a < month b"
    unfolding pad2_def
    by (simp only: Cons_less_Cons digit_less_iff digit_eq_iff not_less_Nil
          lex2 [OF assms(3,4), symmetric])
  finally show ?thesis .
qed

lemma example_month_keys:
  "map (\<lambda>r. map_option strftime_Ym (Date r)) example_rows =
     [Some ''2024-01'', Some ''2024-01'', Some ''2024-02'']"
  by (simp add: example_rows_def jan5_def jan10_def feb1_def strftime_Ym_def pad4_def
        pad2_def digit_def)

lemma example_keyed_by_month:
  "map (\<lambda>r. (map_option strftime_Ym (Date r), Amount r)) example_rows =
     [(Some ''2024-01'', Fin 100), (Some ''2024-01'', Fin 50), (Some ''2024-02'', Fin 200)]"
  by (simp add: example_rows_def jan5_def jan10_def feb1_def strftime_Ym_def pad4_def
        pad2_def digit_def)

lemma example_by_month:
  "fst (get_expenses_by_month example_tracker) = [(''2024-01'', Fin 150), (''2024-02'', Fin 200)]"
  by (simp add: by_month_groupby example_tracker_rows example_tracker_dtype
        example_keyed_by_month groupby_sum_def group_accs_def acc0_def fsub_def Let_def
        round64_examples)

lemma example_month_amounts:
  "map Amount (month_rows example_rows ''2024-01'') = [Fin 100, Fin 50]"
  "map Amount (month_rows example_rows ''2024-02'') = [Fin 200]"
  by (simp_all add: month_rows_def example_rows_def jan5_def jan10_def feb1_def
        strftime_Ym_def pad4_def pad2_def digit_def)

lemma large_keyed_by_month:
  "map (\<lambda>r. (map_option strftime_Ym (Date r), Amount r)) large_rows =
     [(Some ''2024-01'', Fin 10000000000000000), (Some ''2024-01'', Fin 1)]"
  by (simp add: large_rows_def jan5_def jan10_def strftime_Ym_def pad4_def pad2_def digit_def)

lemma large_month_rows: "month_rows large_rows ''2024-01'' = large_rows"
  by (simp add: month_rows_def large_rows_def jan5_def jan10_def strftime_Ym_def pad4_def
        pad2_def digit_def)

text \<open>
  Claim C8, as the specification states it, fails: the sums are sums of binary
  floating-point numbers. On the ledger with the amounts \<open>1e16\<close> and \<open>1.0\<close>, both of
  January 2024, \<open>get_expenses_by_month\<close> maps the month to \<open>1e16\<close>, while the sum of
  the two amounts is 10000000000000001.
\<close>

theorem get_expenses_by_month_rounding_counterexample:
  "fst (get_expenses_by_month large_tracker) = [(''2024-01'', Fin 10000000000000000)] \<and>
   exact_total (month_rows (rows (df large_tracker)) ''2024-01'') = 10000000000000001"
  by (simp add: by_month_groupby large_tracker_rows large_tracker_dtype large_keyed_by_month
        large_month_rows large_exact_total groupby_sum_def group_accs_def acc0_def fsub_def
        Let_def round64_large_examples)

text \<open>
  Claim C8, amended. \<open>get_expenses_by_month\<close> returns one entry for each month key
  \<open>YYYY-MM\<close> of the date of a transaction and no other entry; a transaction without
  a date (\<open>NaT\<close>) belongs to no month. It maps each key to the sum pandas forms of the
  amounts of that month's transactions in ledger order (\<open>nan\<close> amounts skipped, the
  additions those of the column's dtype), the exact sum when these amounts add without
  rounding, and lists the entries with the keys strictly ascending. The keys and
  their order are the same for every order of the same transactions, and on the
  timestamps pandas can hold a key is smaller than another exactly when its month is
  the earlier one.
\<close>

theorem get_expenses_by_month_correct:
  "fst ` set (fst (get_expenses_by_month s)) =
     {m. Some m \<in> (\<lambda>r. map_option strftime_Ym (Date r)) ` set (rows (df s))} \<and>
   (\<forall>m \<in> fst ` set (fst (get_expenses_by_month s)).
      map_of (fst (get_expenses_by_month s)) m =
        Some (group_sum (Amount_dtype (df s)) (map Amount (month_rows (rows (df s)) m)))) \<and>
   (\<forall>m \<in> fst ` set (fst (get_expenses_by_month s)).
      adds_exactly (Amount_dtype (df s)) 0 (map Amount (month_rows (rows (df s)) m)) \<longrightarrow>
      map_of (fst (get_expenses_by_month s)) m =
        Some (Fin (exact_total (month_rows (rows (df s)) m)))) \<and>
   sorted_wrt (<) (map fst (fst (get_expenses_by_month s))) \<and>
   (\<forall>s'. mset (rows (df s')) = mset (rows (df s)) \<longrightarrow>
      map fst (fst (get_expenses_by_month s')) = map fst (fst (get_expenses_by_month s))) \<and>
   (\<forall>a b. valid_timestamp a \<and> valid_timestamp b \<longrightarrow>
      (strftime_Ym a < strftime_Ym b \<longleftrightarrow>
         year a < year b \<or> year a = year b \<and> month a < month b))"
proof (intro conjI ballI allI impI)
  show "strftime_Ym a < strftime_Ym b \<longleftrightarrow>
         year a < year b \<or> year a = year b \<and> month a < month b"
    if "valid_timestamp a \<and> valid_timestamp b" for a b
    using that by (intro strftime_Ym_less_iff) (simp_all add: valid_timestamp_def)
next
  show "fst ` set (fst (get_expenses_by_month s)) =
     {m. Some m \<in> (\<lambda>r. map_option strftime_Ym (Date r)) ` set (rows (df s))}"
    by (rule by_month_keys)
  show srt: "sorted_wrt (<) (map fst (fst (get_expenses_by_month t)))" for t
    by (simp only: by_month_groupby sorted_groupby_sum)
  show "map_of (fst (get_expenses_by_month s)) m =
        Some (group_sum (Amount_dtype (df s)) (map Amount (month_rows (rows (df s)) m)))"
    if "m \<in> fst ` set (fst (get_expenses_by_month s))" for m
    using that by (rule by_month_value)
  show "map_of (fst (get_expenses_by_month s)) m =
        Some (Fin (exact_total (month_rows (rows (df s)) m)))"
    if "m \<in> fst ` set (fst (get_expenses_by_month s))"
      and "adds_exactly (Amount_dtype (df s)) 0 (map Amount (month_rows (rows (df s)) m))" for m
    using by_month_value [OF that(1)] group_sum_rows_exact [OF that(2)] by simp
  show "map fst (fst (get_expenses_by_month s')) = map fst (fst (get_expenses_by_month s))"
    if "mset (rows (df s')) = mset (rows (df s))" for s'
  proof (rule sorted_distinct_set_unique)
    from srt [of s'] show "sorted (map fst (fst (get_expenses_by_month s')))"
      and "distinct (map fst (fst (get_expenses_by_month s')))"
      by (simp_all add: strict_sorted_iff)
    from srt [of s] show "sorted (map fst (fst (get_expenses_by_month s)))"
      and "distinct (map fst (fst (get_expenses_by_month s)))"
      by (simp_all add: strict_sorted_iff)
    from that have "set (rows (df s')) = set (rows (df s))"
      by (rule mset_eq_setD)
    then have "fst ` set (fst (get_expenses_by_month s')) =
        fst ` set (fst (get_expenses_by_month s))"
      by (simp only: by_month_keys)
    then show "set (map fst (fst (get_expenses_by_month s'))) =
        set (map fst (fst (get_expenses_by_month s)))"
      by simp
  qed
qed

theorem get_expenses_by_month_correct_witness:
  "fst (get_expenses_by_month example_tracker) =
     [(''2024-01'', Fin 150), (''2024-02'', Fin 200)] \<and>
   adds_exactly (Amount_dtype (df example_tracker)) 0
     (map Amount (month_rows (rows (df example_tracker)) ''2024-01'')) \<and>
   exact_total (month_rows (rows (df example_tracker)) ''2024-01'') = 150 \<and>
   group_sum (Amount_dtype (df example_tracker))
     (map Amount (month_rows (rows (df example_tracker)) ''2024-02'')) = Fin 200 \<and>
   valid_timestamp jan5 \<and> valid_timestamp feb1 \<and> strftime_Ym jan5 < strftime_Ym feb1 \<and>
   map fst (fst (get_expenses_by_month (example_tracker\<lparr>df := loaded (rev example_rows)\<rparr>))) =
     [''2024-01'', ''2024-02'']"
proof -
  note t = get_expenses_by_month_correct [of example_tracker]
  have k1: "''2024-01'' \<in> fst ` set (fst (get_expenses_by_month example_tracker))"
    and k2: "''2024-02'' \<in> fst ` set (fst (get_expenses_by_month example_tracker))"
    by (simp_all add: example_by_month)
  have a: "adds_exactly (Amount_dtype (df example_tracker)) 0
     (map Amount (month_rows (rows (df example_tracker)) ''2024-01''))"
    by (simp add: example_tracker_rows example_tracker_dtype example_month_amounts
          representable_examples)
  note t2 = t [THEN conjunct2, THEN conjunct1, rule_format]
  note t3 = t [THEN conjunct2, THEN conjunct2, THEN conjunct1, rule_format]
  note t5 = t [THEN conjunct2, THEN conjunct2, THEN conjunct2, THEN conjunct2, THEN conjunct1,
      rule_format]
  note t6 = t [THEN conjunct2, THEN conjunct2, THEN conjunct2, THEN conjunct2, THEN conjunct2,
      rule_format]
  from t3 [OF k1 a] have e: "exact_total (month_rows (rows (df example_tracker)) ''2024-01'') = 150"
    by (simp add: example_by_month)
  from t2 [OF k2] have g: "group_sum (Amount_dtype (df example_tracker))
     (map Amount (month_rows (rows (df example_tracker)) ''2024-02'')) = Fin 200"
    by (simp add: example_by_month)
  have v: "valid_timestamp jan5 \<and> valid_timestamp feb1"
    by (simp add: valid_timestamp_def jan5_def feb1_def)
  from t6 [OF v] have l: "strftime_Ym jan5 < strftime_Ym feb1"
    by (simp add: jan5_def feb1_def)
  have "mset (rows (df (example_tracker\<lparr>df := loaded (rev example_rows)\<rparr>))) =
      mset (rows (df example_tracker))"
    by (simp add: example_tracker_rows loaded_def)
  from t5 [OF this] have p: "map fst (fst (get_expenses_by_month
      (example_tracker\<lparr>df := loaded (rev example_rows)\<rparr>))) = [''2024-01'', ''2024-02'']"
    by (simp add: example_by_month)
  from example_by_month a e g v l p show ?thesis
    by simp
qed

subsection \<open>The pivot of categories by month\<close>






















section \<open>Numerical behaviour of the sums\<close>






section \<open>The pivot against the totals by month\<close>




section \<open>The report generator\<close>

subsection \<open>The top five expenses\<close>

lemma round64_tie_examples:
  "round64 10 = Fin 10" "round64 20 = Fin 20" "round64 40 = Fin 40" "round64 60 = Fin 60"
  by (simp_all add: round64_def ilog2_def round_half_even_def pow2_def Let_def)

lemma tie_tracker_rows: "rows (df tie_tracker) = tie_rows"
  by (simp add: tie_tracker_def init_def loaded_def)

lemma tie_tracker_dtype: "Amount_dtype (df tie_tracker) = Float64"
  by (simp add: tie_tracker_def init_def loaded_def)

lemma tie_month_rows: "month_rows tie_rows ''2024-01'' = tie_rows"
  by (simp add: month_rows_def tie_rows_def jan5_def strftime_Ym_def pad4_def pad2_def
        digit_def)

lemma tie_top5_spec:
  "top5_spec tie_rows =
     [\<lparr>Date = Some jan5, Amount = Fin 20, Category = ''Food'', Description = Text ''c''\<rparr>,
      \<lparr>Date = Some jan5, Amount = Fin 20, Category = ''Food'', Description = Text ''d''\<rparr>,
      \<lparr>Date = Some jan5, Amount = Fin 10, Category = ''Food'', Description = Text ''a''\<rparr>,
      \<lparr>Date = Some jan5, Amount = Fin 10, Category = ''Food'', Description = Text ''b''\<rparr>]"
  by (simp add: top5_spec_def stable_sort_desc_def tie_rows_def rank_def)

lemma tie_groupby_category:
  "groupby_sum Float64 (map (\<lambda>r. (Some (Category r), Amount r)) tie_rows) =
     [(''Food'', Fin 60)]"
  by (simp add: tie_rows_def groupby_sum_def group_accs_def acc0_def fsub_def Let_def
        round64_0 round64_tie_examples)

lemma tie_sorted: "sort_values_desc Amount tie_rows (rev tie_rows)"
  by (simp add: sort_values_desc_def tie_rows_def before_desc_def)

lemma tie_report:
  "generate_monthly_report today (Some ''2024-01'') tie_tracker (rev tie_rows)
     (Returned (Some \<lparr>category_spending = [(''Food'', Fin 60)], top_expenses = rev tie_rows\<rparr>),
      tie_tracker\<lparr>df := with_month (df tie_tracker)\<rparr>)"
proof -
  have dt: "Amount_dtype (with_month (df tie_tracker)) = Float64"
    by (simp add: with_month_def tie_tracker_dtype)
  have n: "length tie_rows \<noteq> 0"
    by (simp add: tie_rows_def)
  have t: "take 5 (rev tie_rows) = rev tie_rows"
    by (simp add: tie_rows_def)
  have c: "sort_values_desc snd [(''Food'', Fin 60)] [(''Food'', Fin 60)]"
    by (simp add: sort_values_desc_def)
  show ?thesis
    unfolding generate_monthly_report_def Let_def month_data_filter tie_tracker_rows
      report_month_def
    using n by (simp add: dt tie_month_rows tie_groupby_category tie_sorted t c)
qed

text \<open>
  Claim C7, as the specification states it, fails: the report takes the first five
  rows of \<open>month_data.sort_values('Amount', ascending=False)\<close>, and that call, made
  with the default \<open>kind='quicksort'\<close>, does not keep rows of equal amount in their
  order. On the ledger read from a file with the expenses a and b of 10 and c and d of
  20, in this order and all of January 2024, the report lists d, c, b, a, the ledger
  reversed, where ledger order among equal amounts asks for c, d, a, b.
\<close>

theorem top_expenses_ties_counterexample:
  "generate_monthly_report today (Some ''2024-01'') tie_tracker (rev tie_rows)
     (Returned (Some \<lparr>category_spending = [(''Food'', Fin 60)], top_expenses = rev tie_rows\<rparr>),
      tie_tracker\<lparr>df := with_month (df tie_tracker)\<rparr>) \<and>
   top_expenses \<lparr>category_spending = [(''Food'', Fin 60)], top_expenses = rev tie_rows\<rparr> \<noteq>
     top5_spec (month_rows (rows (df tie_tracker)) ''2024-01'')"
  using tie_report
  by (simp add: tie_tracker_rows tie_month_rows tie_top5_spec) (simp add: tie_rows_def)

lemma desc_keys_unique:
  assumes "sort_values_desc key xs ys"
  shows "map key ys = map key (stable_sort_desc key xs)"
proof -
  have canon: "map (rank \<circ> key) (rev zs) = sort (map (rank \<circ> key) xs)"
    if "sort_values_desc key xs zs" for zs
  proof -
    from that have ms: "mset zs = mset xs"
      and sw: "sorted_wrt (\<lambda>a b. before_desc (key a) (key b)) zs"
      by (simp_all add: sort_values_desc_def)
    from sw have so: "sorted (map (rank \<circ> key) (rev zs))"
      by (simp add: sorted_map sorted_wrt_rev before_desc_rank)
    from ms have me: "mset (map (rank \<circ> key) (rev zs)) = mset (map (rank \<circ> key) xs)"
      by simp
    from properties_for_sort [OF me so] show ?thesis
      by simp
  qed
  from canon [OF assms] canon [OF sort_values_desc_stable [of key xs]]
  have "map (rank \<circ> key) (rev ys) = map (rank \<circ> key) (rev (stable_sort_desc key xs))"
    by simp
  then have r: "map (rank \<circ> key) ys = map (rank \<circ> key) (stable_sort_desc key xs)"
    by (simp only: rev_map [symmetric] rev_is_rev_conv)
  have e: "map rank (map key ys) = map rank (map key (stable_sort_desc key xs))"
    by (simp only: map_map r)
  have "inj rank"
    by (rule injI) (rule rank_inj)
  from inj_map_eq_map [OF this, THEN iffD1, OF e] show ?thesis .
qed

text \<open>
  Claim C7, amended. For a month that has a transaction, \<open>generate_monthly_report\<close>
  produces a report, unless the \<open>Amount\<close> column is of dtype \<open>object\<close> and the total
  of the month is zero (then the percentages cannot be formed and the call ends with
  \<open>ZeroDivisionError\<close>). The amounts of the top-five list of every report it may
  produce are those of the month's transactions sorted by amount descending and cut
  after the first five; every entry of the list is a transaction of that month, and
  the list has five entries, or as many as the month has. Which of several
  transactions of equal amount are listed, and in which order, is left open.
\<close>

theorem top_expenses_amounts:
  "m = report_month now month_arg \<Longrightarrow> month_rows (rows (df s)) m \<noteq> [] \<Longrightarrow>
   \<not> (Amount_dtype (df s) = Object \<and>
      object_total (map Amount (month_rows (rows (df s)) m)) = Fin 0) \<Longrightarrow>
   (\<exists>sorted_md rep.
      generate_monthly_report now month_arg s sorted_md
        (Returned (Some rep), s\<lparr>df := with_month (df s)\<rparr>)) \<and>
   (\<forall>sorted_md res.
      generate_monthly_report now month_arg s sorted_md res \<longrightarrow>
      (\<exists>rep. fst res = Returned (Some rep) \<and>
         map Amount (top_expenses rep) = map Amount (top5_spec (month_rows (rows (df s)) m)) \<and>
         mset (top_expenses rep) \<subseteq># mset (month_rows (rows (df s)) m) \<and>
         length (top_expenses rep) = min 5 (length (month_rows (rows (df s)) m))))"
proof (intro conjI allI impI)
  let ?md = "month_rows (rows (df s)) m"
  let ?f = "with_month (df s)"
  assume m: "m = report_month now month_arg" and ne: "?md \<noteq> []"
    and nz: "\<not> (Amount_dtype (df s) = Object \<and> object_total (map Amount ?md) = Fin 0)"
  have md: "month_data ?f m = ?md"
    by (rule month_data_filter)
  have dt: "Amount_dtype ?f = Amount_dtype (df s)"
    by (simp add: with_month_def)
  from ne have len: "length ?md \<noteq> 0"
    by simp
  let ?rep = "\<lparr>category_spending = stable_sort_desc snd
        (groupby_sum (Amount_dtype (df s)) (map (\<lambda>r. (Some (Category r), Amount r)) ?md)),
      top_expenses = take 5 (stable_sort_desc Amount ?md)\<rparr>"
  have "generate_monthly_report now month_arg s (stable_sort_desc Amount ?md)
      (Returned (Some ?rep), s\<lparr>df := ?f\<rparr>)"
    unfolding generate_monthly_report_def Let_def m [symmetric] md dt
    using len nz by (simp add: sort_values_desc_stable)
  then show "\<exists>sorted_md rep. generate_monthly_report now month_arg s sorted_md
        (Returned (Some rep), s\<lparr>df := ?f\<rparr>)"
    by blast
  fix sorted_md res
  assume g: "generate_monthly_report now month_arg s sorted_md res"
  from g len nz have c: "case fst res of
        Returned (Some rep) \<Rightarrow>
          sort_values_desc Amount ?md sorted_md \<and> top_expenses rep = take 5 sorted_md
      | _ \<Rightarrow> False"
    unfolding generate_monthly_report_def Let_def m [symmetric] md dt
    by (auto split: outcome.splits option.splits)
  then obtain rep where rep: "fst res = Returned (Some rep)"
    and srt: "sort_values_desc Amount ?md sorted_md"
    and top: "top_expenses rep = take 5 sorted_md"
    by (auto split: outcome.splits option.splits)
  from srt have ms: "mset sorted_md = mset ?md"
    by (simp add: sort_values_desc_def)
  then have sl: "length sorted_md = length ?md"
    by (rule mset_eq_length)
  have "map Amount (top_expenses rep) = take 5 (map Amount sorted_md)"
    by (simp add: top take_map)
  also have "\<dots> = take 5 (map Amount (stable_sort_desc Amount ?md))"
    by (simp only: desc_keys_unique [OF srt])
  finally have a: "map Amount (top_expenses rep) = map Amount (top5_spec ?md)"
    by (simp add: top5_spec_def take_map)
  have "mset (take 5 sorted_md) + mset (drop 5 sorted_md) = mset sorted_md"
    by (simp add: union_code)
  then have b: "mset (top_expenses rep) \<subseteq># mset ?md"
    unfolding top ms [symmetric] by (metis mset_subset_eq_add_left)
  have l: "length (top_expenses rep) = min 5 (length ?md)"
    by (simp add: top sl min.commute)
  from rep a b l show "\<exists>rep. fst res = Returned (Some rep) \<and>
         map Amount (top_expenses rep) = map Amount (top5_spec ?md) \<and>
         mset (top_expenses rep) \<subseteq># mset ?md \<and>
         length (top_expenses rep) = min 5 (length ?md)"
    by blast
qed

theorem top_expenses_amounts_witness:
  "''2024-01'' = report_month today (Some ''2024-01'') \<and>
   month_rows (rows (df tie_tracker)) ''2024-01'' = tie_rows \<and>
   Amount_dtype (df tie_tracker) = Float64 \<and>
   generate_monthly_report today (Some ''2024-01'') tie_tracker (rev tie_rows)
     (Returned (Some \<lparr>category_spending = [(''Food'', Fin 60)], top_expenses = rev tie_rows\<rparr>),
      tie_tracker\<lparr>df := with_month (df tie_tracker)\<rparr>) \<and>
   map Amount (rev tie_rows) = map Amount (top5_spec tie_rows) \<and>
   mset (rev tie_rows) \<subseteq># mset tie_rows \<and>
   length (rev tie_rows) = min 5 (length tie_rows)"
proof -
  have m: "''2024-01'' = report_month today (Some ''2024-01'')"
    by (simp add: report_month_def)
  have r: "month_rows (rows (df tie_tracker)) ''2024-01'' = tie_rows"
    by (simp add: tie_tracker_rows tie_month_rows)
  have ne: "month_rows (rows (df tie_tracker)) ''2024-01'' \<noteq> []"
    by (simp add: r) (simp add: tie_rows_def)
  have nz: "\<not> (Amount_dtype (df tie_tracker) = Object \<and>
      object_total (map Amount (month_rows (rows (df tie_tracker)) ''2024-01'')) = Fin 0)"
    by (simp add: tie_tracker_dtype)
  from top_expenses_amounts [OF m ne nz, THEN conjunct2, rule_format, OF tie_report]
  have "map Amount (rev tie_rows) = map Amount (top5_spec tie_rows) \<and>
      mset (rev tie_rows) \<subseteq># mset tie_rows \<and>
      length (rev tie_rows) = min 5 (length tie_rows)"
    by (simp add: r)
  with m r tie_tracker_dtype tie_report show ?thesis
    by simp
qed

end
